theory Spec2Isabelle
  imports Complex_Main "HOL-Library.Sublist"
begin

section \<open>JavaScript numbers and strings, as far as the engine uses them\<close>

text \<open>
  The evaluation engine of the solar setup tracker lives in the React component \<open>App\<close>:
  the memoised values \<open>stats\<close> (Statistics Aggregator) and \<open>messages\<close> (Diagnostics
  Engine). Both read component properties, which are stored as text, through \<open>getNum\<close>.

  A finite JavaScript number is modelled by an exact rational (\<^typ>\<open>rat\<close>): rounding to
  binary64, overflow and the sign of zero are abstracted away. The values that are not
  finite are kept as constructors of \<open>jsnum\<close>, because the code tests for them
  (\<open>Number.isFinite\<close>, \<open>isNaN\<close>) and because a division by zero produces them.
  A string is a list of bytes; a character outside ASCII stands as its UTF-8 encoding.
\<close>

datatype jsnum = NaN | Fin rat | PosInf | NegInf

definition isDigit :: "char \<Rightarrow> bool" where
  "isDigit c = (48 \<le> (of_char c :: nat) \<and> (of_char c :: nat) \<le> 57)"

definition digitVal :: "char \<Rightarrow> int" where
  "digitVal c = of_char c - 48"

definition digitsVal :: "string \<Rightarrow> int" where
  "digitsVal s = foldl (\<lambda>n c. 10 * n + digitVal c) 0 s"

text \<open>
  \<open>skipWhite\<close> drops the leading white space and line terminators of ECMAScript
  (\<open>StrWhiteSpaceChar\<close>): TAB, LF, VT, FF, CR, SP, and in UTF-8 U+00A0, U+1680,
  U+2000..U+200A, U+2028, U+2029, U+202F, U+205F, U+3000 and U+FEFF.
\<close>

fun skipWhite :: "string \<Rightarrow> string" where
  "skipWhite [] = []"
| "skipWhite [a] = (if (of_char a :: nat) \<in> {9, 10, 11, 12, 13, 32} then [] else [a])"
| "skipWhite [a, b] =
     (if (of_char a :: nat) \<in> {9, 10, 11, 12, 13, 32} then skipWhite [b]
      else if (of_char a :: nat) = 194 \<and> (of_char b :: nat) = 160 then []
      else [a, b])"
| "skipWhite (a # b # c # s) =
     (if (of_char a :: nat) \<in> {9, 10, 11, 12, 13, 32} then skipWhite (b # c # s)
      else if (of_char a :: nat) = 194 \<and> (of_char b :: nat) = 160 then skipWhite (c # s)
      else if (of_char a :: nat) = 225 \<and> (of_char b :: nat) = 154 \<and> (of_char c :: nat) = 128
        then skipWhite s
      else if (of_char a :: nat) = 226 \<and> (of_char b :: nat) = 128
           \<and> ((128 \<le> (of_char c :: nat) \<and> (of_char c :: nat) \<le> 138)
              \<or> (of_char c :: nat) \<in> {168, 169, 175})
        then skipWhite s
      else if (of_char a :: nat) = 226 \<and> (of_char b :: nat) = 129 \<and> (of_char c :: nat) = 159
        then skipWhite s
      else if (of_char a :: nat) = 227 \<and> (of_char b :: nat) = 128 \<and> (of_char c :: nat) = 128
        then skipWhite s
      else if (of_char a :: nat) = 239 \<and> (of_char b :: nat) = 187 \<and> (of_char c :: nat) = 191
        then skipWhite s
      else a # b # c # s)"

text \<open>
  \<open>pow10 e x\<close> is \<open>x \<times> 10\<^sup>e\<close> for an integer exponent.
\<close>

definition pow10 :: "int \<Rightarrow> rat \<Rightarrow> rat" where
  "pow10 e x = (if 0 \<le> e then x * 10 ^ nat e else x / 10 ^ nat (- e))"

text \<open>
  The optional exponent part of a decimal literal: \<open>e\<close> or \<open>E\<close>, an optional sign and at
  least one digit. Returns the exponent and the rest of the string; a lone \<open>e\<close> is not
  part of the literal.
\<close>

definition exponentPart :: "string \<Rightarrow> int \<times> string" where
  "exponentPart s =
     (case s of
        [] \<Rightarrow> (0, s)
      | c # r \<Rightarrow>
          if c = CHR ''e'' \<or> c = CHR ''E'' then
            (let (neg, r') = (case r of
                                [] \<Rightarrow> (False, r)
                              | d # r'' \<Rightarrow> if d = CHR ''-'' then (True, r'')
                                           else if d = CHR ''+'' then (False, r'')
                                           else (False, r));
                 ds = takeWhile isDigit r'
             in if ds = [] then (0, s)
                else ((if neg then - digitsVal ds else digitsVal ds),
                      dropWhile isDigit r'))
          else (0, s))"

text \<open>
  The longest prefix of the string that is a \<open>StrDecimalLiteral\<close> (optional sign, then
  \<open>Infinity\<close> or digits with an optional fraction and exponent), with its value and the
  rest of the string; \<open>None\<close> when no prefix is one.
\<close>

definition strDecimalPrefix :: "string \<Rightarrow> (jsnum \<times> string) option" where
  "strDecimalPrefix s =
     (let (neg, s1) = (case s of
                         [] \<Rightarrow> (False, s)
                       | c # r \<Rightarrow> if c = CHR ''-'' then (True, r)
                                  else if c = CHR ''+'' then (False, r)
                                  else (False, s))
      in if prefix ''Infinity'' s1 then Some (if neg then NegInf else PosInf, drop 8 s1)
         else
           (let ip = takeWhile isDigit s1;
                r1 = dropWhile isDigit s1;
                (fp, r2) = (case r1 of
                              [] \<Rightarrow> ([], r1)
                            | c # r \<Rightarrow> if c = CHR ''.''
                                       then (takeWhile isDigit r, dropWhile isDigit r)
                                       else ([], r1))
            in if ip = [] \<and> fp = [] then None
               else
                 (let (e, r3) = exponentPart r2;
                      m = of_int (digitsVal ip) + of_int (digitsVal fp) / 10 ^ length fp;
                      v = pow10 e m
                  in Some (Fin (if neg then - v else v), r3))))"

text \<open>The global \<open>parseFloat\<close>: the value of the longest numeric prefix, else \<open>NaN\<close>.\<close>

definition parseFloat :: "string \<Rightarrow> jsnum" where
  "parseFloat s = (case strDecimalPrefix (skipWhite s) of None \<Rightarrow> NaN | Some (v, r) \<Rightarrow> v)"

text \<open>
  \<^verbatim>\<open>const getNum = (val) => { const num = typeof val === 'number' ? val : parseFloat(val ?? '');
                            return Number.isFinite(num) ? num : NaN; }\<close>
  The engine calls it on property texts only. Its result is a finite number or \<open>NaN\<close>:
  \<open>Some r\<close> is the finite number \<open>r\<close>, \<open>None\<close> is \<open>NaN\<close>, so \<open>isNaN (getNum s)\<close> reads
  \<open>getNum s = None\<close>.
\<close>

definition getNum :: "string \<Rightarrow> rat option" where
  "getNum val = (case parseFloat val of Fin r \<Rightarrow> Some r | _ \<Rightarrow> None)"

text \<open>
  \<open>Number(s)\<close> on a string (\<open>StringToNumber\<close>): white space is trimmed at both ends, the
  empty string is \<open>0\<close>, and the whole rest must be one literal: a signed decimal literal or
  an unsigned \<open>0x\<close>, \<open>0o\<close> or \<open>0b\<close> integer literal.
\<close>

definition radixDigit :: "int \<Rightarrow> char \<Rightarrow> int option" where
  "radixDigit b c =
     (let n = (of_char c :: int);
          v = (if 48 \<le> n \<and> n \<le> 57 then Some (n - 48)
               else if 97 \<le> n \<and> n \<le> 102 then Some (n - 87)
               else if 65 \<le> n \<and> n \<le> 70 then Some (n - 55)
               else None)
      in case v of None \<Rightarrow> None | Some d \<Rightarrow> if d < b then Some d else None)"

definition radixVal :: "int \<Rightarrow> string \<Rightarrow> int" where
  "radixVal b s = foldl (\<lambda>n c. b * n + (case radixDigit b c of None \<Rightarrow> 0 | Some d \<Rightarrow> d)) 0 s"

definition nonDecimalPrefix :: "string \<Rightarrow> (rat \<times> string) option" where
  "nonDecimalPrefix s =
     (case s of
        z # x # r \<Rightarrow>
          (let b = (if x = CHR ''x'' \<or> x = CHR ''X'' then 16
                    else if x = CHR ''o'' \<or> x = CHR ''O'' then 8
                    else if x = CHR ''b'' \<or> x = CHR ''B'' then 2
                    else (0::int));
               ds = takeWhile (\<lambda>c. radixDigit b c \<noteq> None) r
           in if z = CHR ''0'' \<and> b \<noteq> 0 \<and> ds \<noteq> []
              then Some (of_int (radixVal b ds), dropWhile (\<lambda>c. radixDigit b c \<noteq> None) r)
              else None)
      | _ \<Rightarrow> None)"

definition toNumber :: "string \<Rightarrow> jsnum" where
  "toNumber s =
     (let t = skipWhite s
      in if t = [] then Fin 0
         else (case nonDecimalPrefix t of
                 Some (v, r) \<Rightarrow> if skipWhite r = [] then Fin v else NaN
               | None \<Rightarrow>
                   (case strDecimalPrefix t of
                      Some (v, r) \<Rightarrow> if skipWhite r = [] then v else NaN
                    | None \<Rightarrow> NaN)))"

subsection \<open>Numbers to text\<close>

text \<open>The decimal digits of an integer that is not negative.\<close>

function intStr :: "int \<Rightarrow> string" where
  "intStr n = (if n < 10 then [char_of (48 + n)] else intStr (n div 10) @ [char_of (48 + n mod 10)])"
  by pat_completeness auto
termination
  by (relation "measure nat") auto

function stripZeros :: "int \<Rightarrow> int" where
  "stripZeros n = (if 0 < n \<and> n mod 10 = 0 then stripZeros (n div 10) else n)"
  by pat_completeness auto
termination
  by (relation "measure nat") auto

text \<open>\<open>lead10 p q\<close>, for \<open>0 < p\<close>: the least \<open>d\<close> with \<open>q \<le> p \<times> 10\<^sup>d\<close>.\<close>

function lead10 :: "int \<Rightarrow> int \<Rightarrow> nat" where
  "lead10 p q = (if p \<le> 0 \<or> q \<le> p then 0 else Suc (lead10 (10 * p) q))"
  by pat_completeness auto
termination
  by (relation "measure (\<lambda>(p, q). nat (q - p))") auto

text \<open>
  \<open>exponent10 x\<close>, for \<open>0 < x\<close>: the integer \<open>n\<close> with \<open>10\<^sup>n\<^sup>-\<^sup>1 \<le> x < 10\<^sup>n\<close>.
\<close>

definition exponent10 :: "rat \<Rightarrow> int" where
  "exponent10 x =
     (let (p, q) = quotient_of x
      in if q \<le> p then int (length (intStr (p div q)))
         else 1 - int (lead10 p q))"

text \<open>
  \<open>Number::toString\<close> (radix 10), which \<open>String(x)\<close> and a template literal apply to a
  number. ECMAScript takes the shortest digit string \<open>s\<close> (of \<open>k\<close> digits, with decimal
  exponent \<open>n\<close>) that reads back as the same binary64 value; 17 digits always suffice.
  Here the exact value is rounded to 17 significant digits and trailing zeros are
  dropped: on a value of at most 15 significant digits, such as an integer below
  \<open>10\<^sup>1\<^sup>5\<close> or a short decimal a user typed, this is the string JavaScript prints.
\<close>

definition posNumToString :: "rat \<Rightarrow> string" where
  "posNumToString x =
     (let n0 = exponent10 x;
          s0 = \<lfloor>pow10 (17 - n0) x + 1 / 2\<rfloor>;
          n = (if 10 ^ 17 \<le> s0 then n0 + 1 else n0);
          ds = intStr (stripZeros s0);
          k = int (length ds)
      in if k \<le> n \<and> n \<le> 21 then ds @ replicate (nat (n - k)) (CHR ''0'')
         else if 0 < n \<and> n \<le> 21 then take (nat n) ds @ ''.'' @ drop (nat n) ds
         else if - 6 < n \<and> n \<le> 0 then ''0.'' @ replicate (nat (- n)) (CHR ''0'') @ ds
         else
           (let e = n - 1;
                es = (if e < 0 then ''-'' else ''+'') @ intStr \<bar>e\<bar>
            in if k = 1 then ds @ ''e'' @ es
               else take 1 ds @ ''.'' @ drop 1 ds @ ''e'' @ es))"

definition numToString :: "rat \<Rightarrow> string" where
  "numToString x =
     (if x = 0 then ''0''
      else if x < 0 then ''-'' @ posNumToString (- x)
      else posNumToString x)"

text \<open>
  \<open>Number.prototype.toFixed(f)\<close>: the integer \<open>n\<close> nearest to \<open>x \<times> 10\<^sup>f\<close> (the larger one
  on a tie), printed with \<open>f\<close> digits after the point; a negative \<open>x\<close> is printed as
  \<open>-\<close> and the text of \<open>- x\<close>; from \<open>10\<^sup>2\<^sup>1\<close> on the result is \<open>String(x)\<close>.
\<close>

definition toFixed :: "nat \<Rightarrow> rat \<Rightarrow> string" where
  "toFixed f x0 =
     (let sgn = (if x0 < 0 then ''-'' else []);
          x = (if x0 < 0 then - x0 else x0)
      in if 10 ^ 21 \<le> x then sgn @ numToString x
         else
           (let n = \<lfloor>x * 10 ^ f + 1 / 2\<rfloor>;
                m0 = (if n = 0 then ''0'' else intStr n);
                m1 = (if f \<noteq> 0 \<and> length m0 \<le> f
                      then replicate (f + 1 - length m0) (CHR ''0'') @ m0 else m0);
                k = length m1
            in if f \<noteq> 0 then sgn @ take (k - f) m1 @ ''.'' @ drop (k - f) m1
               else sgn @ m1))"

subsection \<open>Arithmetic that can leave the finite numbers\<close>

text \<open>
  Sums, differences and products of finite numbers stay finite here and are computed in
  \<^typ>\<open>rat\<close>. A quotient can be infinite or \<open>NaN\<close>, so the values the code derives from a
  division are \<open>jsnum\<close>s, with the IEEE 754 rules for the operations applied to them.
\<close>

fun jdivide :: "jsnum \<Rightarrow> jsnum \<Rightarrow> jsnum" where
  "jdivide NaN y = NaN"
| "jdivide x NaN = NaN"
| "jdivide (Fin a) (Fin b) =
     (if b \<noteq> 0 then Fin (a / b)
      else if a = 0 then NaN else if 0 < a then PosInf else NegInf)"
| "jdivide (Fin a) y = Fin 0"
| "jdivide PosInf (Fin b) = (if b < 0 then NegInf else PosInf)"
| "jdivide NegInf (Fin b) = (if b < 0 then PosInf else NegInf)"
| "jdivide x y = NaN"

fun jtimes :: "jsnum \<Rightarrow> jsnum \<Rightarrow> jsnum" where
  "jtimes NaN y = NaN"
| "jtimes x NaN = NaN"
| "jtimes (Fin a) (Fin b) = Fin (a * b)"
| "jtimes (Fin a) PosInf = (if a = 0 then NaN else if 0 < a then PosInf else NegInf)"
| "jtimes (Fin a) NegInf = (if a = 0 then NaN else if 0 < a then NegInf else PosInf)"
| "jtimes PosInf (Fin b) = (if b = 0 then NaN else if 0 < b then PosInf else NegInf)"
| "jtimes NegInf (Fin b) = (if b = 0 then NaN else if 0 < b then NegInf else PosInf)"
| "jtimes PosInf PosInf = PosInf"
| "jtimes NegInf NegInf = PosInf"
| "jtimes x y = NegInf"

fun jminus :: "jsnum \<Rightarrow> jsnum \<Rightarrow> jsnum" where
  "jminus NaN y = NaN"
| "jminus x NaN = NaN"
| "jminus (Fin a) (Fin b) = Fin (a - b)"
| "jminus (Fin a) PosInf = NegInf"
| "jminus (Fin a) NegInf = PosInf"
| "jminus PosInf PosInf = NaN"
| "jminus NegInf NegInf = NaN"
| "jminus PosInf y = PosInf"
| "jminus NegInf y = NegInf"

text \<open>\<open>jless x y\<close> is \<open>x < y\<close>; a comparison with \<open>NaN\<close> is false.\<close>

fun jless :: "jsnum \<Rightarrow> jsnum \<Rightarrow> bool" where
  "jless NaN y = False"
| "jless x NaN = False"
| "jless (Fin a) (Fin b) = (a < b)"
| "jless x PosInf = (x \<noteq> PosInf)"
| "jless NegInf y = (y \<noteq> NegInf)"
| "jless x y = False"

definition jgreater :: "jsnum \<Rightarrow> jsnum \<Rightarrow> bool" where
  "jgreater x y = jless y x"

section \<open>The data model (\<open>types.ts\<close>)\<close>

text \<open>
  Every property is text. The optional properties (\<open>costUsd\<close>, the temperature
  coefficients, \<open>efficiencyPct\<close>, \<open>idleDrawW\<close>) are read by neither \<open>stats\<close> nor
  \<open>messages\<close> and are left out. The field \<open>id\<close> is called \<open>comp_id\<close>; the \<open>type\<close> tag
  is the constructor of \<open>AnyComponent\<close>.
\<close>

record IndividualSolarPanelProps =
  voc :: string
  isc :: string
  vmp :: string
  imp :: string
  pmax :: string

record SolarArrayConfigurationProps =
  selectedPanelId :: string
  panelsInSeries :: string
  numberOfStrings :: string
  assignedMpptId :: string

record MpptChargeControllerProps =
  maxInputVoltage :: string
  maxInputCurrent :: string
  maxOutputCurrent :: string
  nominalBatteryVoltage :: string

record BatteryProps =
  nominalVoltage :: string
  capacityAh :: string
  maxChargeCurrent :: string
  maxDischargeCurrent :: string

record InverterProps =
  inputVoltageMin :: string
  inputVoltageMax :: string
  ratedPower :: string
  surgePower :: string

record 'p BaseComponent =
  comp_id :: rat
  name :: string
  properties :: 'p

type_synonym IndividualSolarPanel = "IndividualSolarPanelProps BaseComponent"
type_synonym SolarArrayConfiguration = "SolarArrayConfigurationProps BaseComponent"
type_synonym MpptChargeController = "MpptChargeControllerProps BaseComponent"
type_synonym Battery = "BatteryProps BaseComponent"
type_synonym Inverter = "InverterProps BaseComponent"

datatype AnyComponent =
    Panel IndividualSolarPanel
  | Array SolarArrayConfiguration
  | Mppt MpptChargeController
  | Batt Battery
  | Inv Inverter

record SystemInputs =
  peakSunHours :: rat
  estimatedDailyUsageWh :: rat
  batteryDoD :: rat
  inverterEfficiency :: rat
  solarPanelEfficiency :: rat
  systemWideVoltage :: rat

definition defaultSystemInputs :: SystemInputs where
  "defaultSystemInputs =
     \<lparr>peakSunHours = 4, estimatedDailyUsageWh = 0, batteryDoD = 80,
      inverterEfficiency = 90, solarPanelEfficiency = 85, systemWideVoltage = 48\<rparr>"

text \<open>The derived lists: \<open>components.filter(c => c.type === ...)\<close>, in stored order.\<close>

fun panels :: "AnyComponent list \<Rightarrow> IndividualSolarPanel list" where
  "panels [] = []"
| "panels (Panel p # cs) = p # panels cs"
| "panels (c # cs) = panels cs"

fun arrays :: "AnyComponent list \<Rightarrow> SolarArrayConfiguration list" where
  "arrays [] = []"
| "arrays (Array a # cs) = a # arrays cs"
| "arrays (c # cs) = arrays cs"

fun mppts :: "AnyComponent list \<Rightarrow> MpptChargeController list" where
  "mppts [] = []"
| "mppts (Mppt m # cs) = m # mppts cs"
| "mppts (c # cs) = mppts cs"

fun batteries :: "AnyComponent list \<Rightarrow> Battery list" where
  "batteries [] = []"
| "batteries (Batt b # cs) = b # batteries cs"
| "batteries (c # cs) = batteries cs"

fun inverters :: "AnyComponent list \<Rightarrow> Inverter list" where
  "inverters [] = []"
| "inverters (Inv i # cs) = i # inverters cs"
| "inverters (c # cs) = inverters cs"

section \<open>The Statistics Aggregator (\<open>stats\<close>)\<close>

datatype ratio = Ratio jsnum | NotApplicable

record ComputedStats =
  totalSolarPower :: rat
  estimatedDailySolarProductionWh :: rat
  totalBatteryCapacity :: rat
  totalBatteryEnergyWh :: rat
  totalInverterPower :: rat
  systemNominalVoltage :: string
  voltageConsistencyIssue :: bool
  estimatedBatteryAutonomyDays :: jsnum
  dailyEnergyBalanceWh :: jsnum
  rechargeTimePshDays :: jsnum
  rechargeTimeEffectiveSunHours :: jsnum
  productionToConsumptionRatioPercentage :: ratio
  panelInterconnectCables :: rat
  arrayToChargerCables :: rat
  chargerToBatteryCables :: rat
  batteryInterconnectCables :: rat
  batteryToInverterCables :: rat
  totalEstimatedCables :: rat

text \<open>
  \<^verbatim>\<open>panels.find(p => p.id === Number(arr.properties.selectedPanelId))\<close>: the first panel
  whose id is the number the text denotes; \<open>None\<close> is \<open>undefined\<close>.
\<close>

definition findPanel :: "IndividualSolarPanel list \<Rightarrow> string \<Rightarrow> IndividualSolarPanel option" where
  "findPanel ps sel = List.find (\<lambda>p. Fin (comp_id p) = toNumber sel) ps"

text \<open>The body of \<open>arrays.forEach\<close> in \<open>stats\<close>; \<open>tot\<close> is the running \<open>totalSolarPower\<close>.\<close>

definition addArrayPower ::
  "IndividualSolarPanel list \<Rightarrow> rat \<Rightarrow> SolarArrayConfiguration \<Rightarrow> rat" where
  "addArrayPower ps tot arr =
     (case findPanel ps (selectedPanelId (properties arr)) of
        None \<Rightarrow> tot
      | Some panel \<Rightarrow>
          (case (getNum (pmax (properties panel)),
                 getNum (panelsInSeries (properties arr)),
                 getNum (numberOfStrings (properties arr))) of
             (Some pm, Some inSeries, Some strings) \<Rightarrow> tot + pm * inSeries * strings
           | _ \<Rightarrow> tot))"

text \<open>
  The body of \<open>batteries.forEach\<close>: the capacity sum and the \<open>Set\<close> of nominal
  voltages, a list without duplicates in insertion order.
\<close>

definition addCapacity :: "rat \<Rightarrow> Battery \<Rightarrow> rat" where
  "addCapacity tot b =
     (case getNum (capacityAh (properties b)) of None \<Rightarrow> tot | Some cap \<Rightarrow> tot + cap)"

definition addVoltage :: "rat list \<Rightarrow> Battery \<Rightarrow> rat list" where
  "addVoltage vs b =
     (case getNum (nominalVoltage (properties b)) of
        None \<Rightarrow> vs
      | Some v \<Rightarrow> if v \<in> set vs then vs else vs @ [v])"

definition addRated :: "rat \<Rightarrow> Inverter \<Rightarrow> rat" where
  "addRated tot inver =
     (case getNum (ratedPower (properties inver)) of None \<Rightarrow> tot | Some rated \<Rightarrow> tot + rated)"

text \<open>The two \<open>arrays.reduce\<close> callbacks of the cable estimate.\<close>

definition addInterconnect :: "rat \<Rightarrow> SolarArrayConfiguration \<Rightarrow> rat" where
  "addInterconnect tot arr =
     (case (getNum (panelsInSeries (properties arr)), getNum (numberOfStrings (properties arr))) of
        (Some inSeries, Some strings) \<Rightarrow>
          if inSeries < 2 \<or> strings < 1 then tot else tot + (inSeries - 1) * strings
      | _ \<Rightarrow> tot)"

definition addArrayToCharger :: "rat \<Rightarrow> SolarArrayConfiguration \<Rightarrow> rat" where
  "addArrayToCharger tot arr =
     (case getNum (numberOfStrings (properties arr)) of
        None \<Rightarrow> tot
      | Some strings \<Rightarrow> if strings < 1 then tot else tot + 2 * strings)"

text \<open>
  The memoised \<open>stats\<close>. The local \<open>totalCost\<close> of the source is computed and never
  returned, so it is not part of the record. \<open>totalEstimatedCables\<close> is the placeholder 0
  here and is filled in by \<open>statsWithCableTotal\<close>.
\<close>

definition stats :: "AnyComponent list \<Rightarrow> SystemInputs \<Rightarrow> ComputedStats" where
  "stats components systemInputs =
     (let tsp = foldl (addArrayPower (panels components)) 0 (arrays components);
          tbc = foldl addCapacity 0 (batteries components);
          batteryVoltages = foldl addVoltage [] (batteries components);
          tip = foldl addRated 0 (inverters components);
          snv = (case batteryVoltages of [] \<Rightarrow> ''N/A'' | v # vs \<Rightarrow> numToString v);
          vci = (1 < length batteryVoltages);
          \<comment> \<open>the product of two finite numbers: the \<open>isFinite\<close> clamp keeps it\<close>
          tbe = tbc * systemWideVoltage systemInputs;
          production = tsp * peakSunHours systemInputs * (solarPanelEfficiency systemInputs / 100);
          usable = tbe * (batteryDoD systemInputs / 100);
          needed = (if 0 < estimatedDailyUsageWh systemInputs
                    then jdivide (Fin (estimatedDailyUsageWh systemInputs))
                                 (Fin (inverterEfficiency systemInputs / 100))
                    else Fin 0);
          autonomy = (if 0 < usable \<and> jgreater needed (Fin 0)
                      then jdivide (Fin usable) needed else Fin 0);
          balance = jminus (Fin production) needed;
          rechargeHours =
            (if 0 < tsp \<and> 0 < usable
             then jdivide (Fin (tbe * (batteryDoD systemInputs / 100)))
                          (Fin (tsp * (solarPanelEfficiency systemInputs / 100)))
             else Fin 0);
          rechargeDays =
            (if 0 < tsp \<and> 0 < usable \<and> 0 < peakSunHours systemInputs
             then jdivide rechargeHours (Fin (peakSunHours systemInputs))
             else Fin 0);
          pcr = (if jgreater needed (Fin 0)
                 then Ratio (jtimes (jdivide (Fin production) needed) (Fin 100))
                 else if 0 < production then NotApplicable
                 else Ratio (Fin 0))
      in \<lparr>totalSolarPower = tsp,
          estimatedDailySolarProductionWh = production,
          totalBatteryCapacity = tbc,
          totalBatteryEnergyWh = tbe,
          totalInverterPower = tip,
          systemNominalVoltage = snv,
          voltageConsistencyIssue = vci,
          estimatedBatteryAutonomyDays = autonomy,
          dailyEnergyBalanceWh = balance,
          rechargeTimePshDays = rechargeDays,
          rechargeTimeEffectiveSunHours = rechargeHours,
          productionToConsumptionRatioPercentage = pcr,
          panelInterconnectCables = foldl addInterconnect 0 (arrays components),
          arrayToChargerCables = foldl addArrayToCharger 0 (arrays components),
          chargerToBatteryCables = of_nat (length (mppts components)) * 2,
          batteryInterconnectCables =
            (if 1 < length (batteries components)
             then (of_nat (length (batteries components)) - 1) * 2 else 0),
          batteryToInverterCables = of_nat (length (inverters components)) * 2,
          totalEstimatedCables = 0\<rparr>)"

definition statsWithCableTotal :: "ComputedStats \<Rightarrow> ComputedStats" where
  "statsWithCableTotal st =
     st\<lparr>totalEstimatedCables :=
          panelInterconnectCables st + arrayToChargerCables st + chargerToBatteryCables st
          + batteryInterconnectCables st + batteryToInverterCables st\<rparr>"

section \<open>The Diagnostics Engine (\<open>messages\<close>)\<close>

datatype MessageLevel = Error | WarnSafety | WarnSizing | WarnCRate | Warn | InfoSafety | Info

text \<open>The level as the string the code stores (\<open>m.level.startsWith('warn')\<close> reads it).\<close>

fun levelName :: "MessageLevel \<Rightarrow> string" where
  "levelName Error = ''error''"
| "levelName WarnSafety = ''warn-safety''"
| "levelName WarnSizing = ''warn-sizing''"
| "levelName WarnCRate = ''warn-c-rate''"
| "levelName Warn = ''warn''"
| "levelName InfoSafety = ''info-safety''"
| "levelName Info = ''info''"

fun levelPrefixMap :: "MessageLevel \<Rightarrow> string" where
  "levelPrefixMap Error = ''Error:''"
| "levelPrefixMap WarnSafety = ''Warning (Safety Margin):''"
| "levelPrefixMap WarnSizing = ''Warning (Sizing):''"
| "levelPrefixMap WarnCRate = ''Warning (C-Rate):''"
| "levelPrefixMap Warn = ''Warning:''"
| "levelPrefixMap InfoSafety = ''Info (Safety Margin):''"
| "levelPrefixMap Info = ''Info:''"

record CategorizedMessage =
  level :: MessageLevel
  mtext :: string

text \<open>
  \<^verbatim>\<open>const add = (level, text) => msgs.push({ level, text: `${levelPrefixMap[level]} ${text}` });\<close>
  The list \<open>msgs\<close> is passed through every rule and returned extended.
\<close>

definition add :: "MessageLevel \<Rightarrow> string \<Rightarrow> CategorizedMessage list \<Rightarrow> CategorizedMessage list" where
  "add lv t msgs = msgs @ [\<lparr>level = lv, mtext = levelPrefixMap lv @ '' '' @ t\<rparr>]"

text \<open>The dash of the mixed-voltage text is U+2013, three bytes in UTF-8.\<close>

definition mixedVoltagesText :: string where
  "mixedVoltagesText =
     ''Mixed battery voltages detected '' @ [CHR 0xE2, CHR 0x80, CHR 0x93] @ '' unify bank voltage.''"

definition ruleEmpty :: "AnyComponent list \<Rightarrow> CategorizedMessage list \<Rightarrow> CategorizedMessage list" where
  "ruleEmpty components msgs =
     (if length components = 0
      then add Info ''Add components to start tracking your solar setup!'' msgs else msgs)"

definition ruleMixed :: "ComputedStats \<Rightarrow> CategorizedMessage list \<Rightarrow> CategorizedMessage list" where
  "ruleMixed st msgs =
     (if voltageConsistencyIssue st then add Error mixedVoltagesText msgs else msgs)"

text \<open>
  \<^verbatim>\<open>arrays.filter(a => !a.properties.assignedMpptId)\<close>: of a string, only the empty one
  is falsy.
\<close>

definition unassignedArrays :: "AnyComponent list \<Rightarrow> SolarArrayConfiguration list" where
  "unassignedArrays components =
     filter (\<lambda>a. assignedMpptId (properties a) = []) (arrays components)"

definition ruleUnassigned :: "AnyComponent list \<Rightarrow> CategorizedMessage list \<Rightarrow> CategorizedMessage list" where
  "ruleUnassigned components msgs =
     (let n = length (unassignedArrays components)
      in if 0 < n then
           (if 0 < length (mppts components)
            then add Warn (numToString (of_nat n) @ '' solar array(s) not assigned to any MPPT.'') msgs
            else add Info (numToString (of_nat n)
                   @ '' solar array(s) present but no MPPT controllers added; their power path is undefined.'')
                   msgs)
         else msgs)"

definition totalMpptOutputCurrent :: "AnyComponent list \<Rightarrow> rat" where
  "totalMpptOutputCurrent components =
     foldl (\<lambda>tot m. tot + (case getNum (maxOutputCurrent (properties m)) of None \<Rightarrow> 0 | Some out \<Rightarrow> out))
       0 (mppts components)"

text \<open>
  \<^verbatim>\<open>arrays.filter(a => a.properties.assignedMpptId === String(mppt.id))\<close>
\<close>

definition assigned :: "AnyComponent list \<Rightarrow> MpptChargeController \<Rightarrow> SolarArrayConfiguration list" where
  "assigned components mppt =
     filter (\<lambda>a. assignedMpptId (properties a) = numToString (comp_id mppt)) (arrays components)"

text \<open>
  The string-voltage check of one assigned array (lines 406 to 415): \<open>maxInputV\<close> is the
  parsed \<open>maxInputVoltage\<close> of the controller, \<open>vc\<close> and \<open>inSeries\<close> the parsed \<open>voc\<close> and
  \<open>panelsInSeries\<close>. The margin factors are 1.10 and 1.20.
\<close>

definition vocCheck ::
  "MpptChargeController \<Rightarrow> rat option \<Rightarrow> SolarArrayConfiguration \<Rightarrow> rat option \<Rightarrow> rat option
     \<Rightarrow> CategorizedMessage list \<Rightarrow> CategorizedMessage list" where
  "vocCheck mppt maxInputV a vc inSeries msgs =
     (case (vc, inSeries, maxInputV) of
        (Some v, Some n, Some mx) \<Rightarrow>
          (let arrayVoc = v * n
           in if mx < arrayVoc then
                add Error (name a @ '' Voc ('' @ toFixed 1 arrayVoc @ ''V) exceeds '' @ name mppt
                  @ '' max input voltage ('' @ numToString mx @ ''V).'') msgs
              else if mx < arrayVoc * (11 / 10) then
                add WarnSafety (name a @ '' Voc headroom below minimum recommended 10% margin relative to ''
                  @ name mppt @ '' ('' @ toFixed 1 arrayVoc @ ''V vs '' @ numToString mx @ ''V).'') msgs
              else if mx < arrayVoc * (12 / 10) then
                add InfoSafety (name a @ '' Voc margin < ideal 20% but >= minimum 10% (Voc ''
                  @ toFixed 1 arrayVoc @ ''V, MPPT max '' @ numToString mx @ ''V).'') msgs
              else msgs)
      | _ \<Rightarrow> msgs)"

text \<open>
  The body of \<open>assigned.forEach\<close>; the state is \<open>(aggregateIsc, aggregatePmax, msgs)\<close>.
\<close>

definition assignedStep ::
  "IndividualSolarPanel list \<Rightarrow> MpptChargeController \<Rightarrow> rat option
     \<Rightarrow> rat \<times> rat \<times> CategorizedMessage list \<Rightarrow> SolarArrayConfiguration
     \<Rightarrow> rat \<times> rat \<times> CategorizedMessage list" where
  "assignedStep ps mppt maxInputV state a =
     (case state of (aggregateIsc, aggregatePmax, msgs) \<Rightarrow>
        (case findPanel ps (selectedPanelId (properties a)) of
           None \<Rightarrow> (aggregateIsc, aggregatePmax, msgs)
         | Some panel \<Rightarrow>
             (let vc = getNum (voc (properties panel));
                  ic = getNum (isc (properties panel));
                  pm = getNum (pmax (properties panel));
                  inSeries = getNum (panelsInSeries (properties a));
                  strings = getNum (numberOfStrings (properties a));
                  aggregateIsc' = (case (ic, strings) of
                                     (Some i, Some s) \<Rightarrow> aggregateIsc + i * s
                                   | _ \<Rightarrow> aggregateIsc);
                  aggregatePmax' = (case (pm, inSeries, strings) of
                                      (Some p, Some n, Some s) \<Rightarrow> aggregatePmax + p * n * s
                                    | _ \<Rightarrow> aggregatePmax)
              in (aggregateIsc', aggregatePmax', vocCheck mppt maxInputV a vc inSeries msgs))))"

definition iscCheck ::
  "MpptChargeController \<Rightarrow> rat \<Rightarrow> CategorizedMessage list \<Rightarrow> CategorizedMessage list" where
  "iscCheck mppt aggregateIsc msgs =
     (case getNum (maxInputCurrent (properties mppt)) of
        None \<Rightarrow> msgs
      | Some maxInputI \<Rightarrow>
          if 0 < maxInputI then
            (if maxInputI < aggregateIsc then
               add Error (name mppt @ '' total array Isc ('' @ toFixed 2 aggregateIsc
                 @ ''A) exceeds max input current ('' @ numToString maxInputI @ ''A).'') msgs
             else if maxInputI * (9 / 10) < aggregateIsc then
               add WarnSizing (name mppt @ '' total array Isc ('' @ toFixed 2 aggregateIsc
                 @ ''A) >90% of max ('' @ numToString maxInputI @ ''A).'') msgs
             else msgs)
          else msgs)"

definition powerCheck ::
  "MpptChargeController \<Rightarrow> rat \<Rightarrow> CategorizedMessage list \<Rightarrow> CategorizedMessage list" where
  "powerCheck mppt aggregatePmax msgs =
     (case (getNum (maxOutputCurrent (properties mppt)),
            getNum (nominalBatteryVoltage (properties mppt))) of
        (Some maxOutI, Some battV) \<Rightarrow>
          if 0 < maxOutI \<and> 0 < battV then
            (let mpptPowerCap = maxOutI * battV
             in if mpptPowerCap * (5 / 4) < aggregatePmax then
                  add WarnSizing (name mppt @ '' array power ('' @ toFixed 0 aggregatePmax
                    @ ''W) >125% of est output capacity (~'' @ toFixed 0 mpptPowerCap
                    @ ''W). Significant clipping likely.'') msgs
                else if mpptPowerCap < aggregatePmax then
                  add Info (name mppt @ '' slightly over-provisioned (array '' @ toFixed 0 aggregatePmax
                    @ ''W vs ~'' @ toFixed 0 mpptPowerCap @ ''W). Minor clipping expected.'') msgs
                else msgs)
          else msgs
      | _ \<Rightarrow> msgs)"

text \<open>The body of \<open>mppts.forEach\<close>.\<close>

definition mpptStep ::
  "AnyComponent list \<Rightarrow> CategorizedMessage list \<Rightarrow> MpptChargeController \<Rightarrow> CategorizedMessage list" where
  "mpptStep components msgs mppt =
     (let maxInputV = getNum (maxInputVoltage (properties mppt));
          asg = assigned components mppt;
          msgs1 = (if length asg = 0
                   then add Warn (name mppt @ '' has no assigned solar arrays.'') msgs else msgs)
      in case foldl (assignedStep (panels components) mppt maxInputV) (0, 0, msgs1) asg of
           (aggregateIsc, aggregatePmax, msgs2) \<Rightarrow>
             powerCheck mppt aggregatePmax (iscCheck mppt aggregateIsc msgs2))"

text \<open>
  The body of \<open>batteries.forEach\<close>: the charge check against the summed controller
  output and the discharge check against the inverter power, both behind the guard on
  \<open>capacityAh\<close>.
\<close>

definition chargeCheck :: "Battery \<Rightarrow> rat \<Rightarrow> CategorizedMessage list \<Rightarrow> CategorizedMessage list" where
  "chargeCheck b totalOut msgs =
     (case getNum (maxChargeCurrent (properties b)) of
        None \<Rightarrow> msgs
      | Some maxCharge \<Rightarrow>
          if 0 < maxCharge then
            (if maxCharge < totalOut then
               add Error (name b @ '' potential charge current ('' @ toFixed 1 totalOut
                 @ ''A) exceeds max charge current ('' @ numToString maxCharge @ ''A).'') msgs
             else if maxCharge * (9 / 10) < totalOut then
               add WarnCRate (name b @ '' charge current near limit ('' @ toFixed 1 totalOut
                 @ ''A / '' @ numToString maxCharge @ ''A).'') msgs
             else msgs)
          else msgs)"

definition dischargeCheck :: "Battery \<Rightarrow> ComputedStats \<Rightarrow> CategorizedMessage list \<Rightarrow> CategorizedMessage list" where
  "dischargeCheck b st msgs =
     (case (getNum (maxDischargeCurrent (properties b)), getNum (nominalVoltage (properties b))) of
        (Some maxDischarge, Some nominalV) \<Rightarrow>
          if 0 < maxDischarge \<and> 0 < nominalV then
            (let estDischargeCurrent = totalInverterPower st / nominalV
             in if maxDischarge < estDischargeCurrent then
                  add Error (name b @ '' estimated discharge current ('' @ toFixed 1 estDischargeCurrent
                    @ ''A) exceeds max discharge current ('' @ numToString maxDischarge @ ''A).'') msgs
                else if maxDischarge * (9 / 10) < estDischargeCurrent then
                  add WarnCRate (name b @ '' discharge current near limit (''
                    @ toFixed 1 estDischargeCurrent @ ''A / '' @ numToString maxDischarge @ ''A).'') msgs
                else msgs)
          else msgs
      | _ \<Rightarrow> msgs)"

definition batteryStep ::
  "ComputedStats \<Rightarrow> rat \<Rightarrow> CategorizedMessage list \<Rightarrow> Battery \<Rightarrow> CategorizedMessage list" where
  "batteryStep st totalOut msgs b =
     (case getNum (capacityAh (properties b)) of
        None \<Rightarrow> msgs
      | Some cap \<Rightarrow>
          if 0 < cap then dischargeCheck b st (chargeCheck b totalOut msgs) else msgs)"

text \<open>The body of \<open>inverters.forEach\<close>; \<open>sysV\<close> is \<open>systemInputs.systemWideVoltage\<close>.\<close>

definition minCheck :: "Inverter \<Rightarrow> rat \<Rightarrow> CategorizedMessage list \<Rightarrow> CategorizedMessage list" where
  "minCheck inver sysV msgs =
     (case getNum (inputVoltageMin (properties inver)) of
        None \<Rightarrow> msgs
      | Some vMin \<Rightarrow>
          if sysV < vMin then
            add Error (name inver @ '' system voltage ('' @ numToString sysV
              @ ''V) below inverter minimum ('' @ numToString vMin @ ''V).'') msgs
          else if sysV < vMin * (105 / 100) then
            add WarnSizing (name inver @ '' system voltage ('' @ numToString sysV
              @ ''V) within 5% of minimum ('' @ numToString vMin @ ''V).'') msgs
          else msgs)"

definition maxCheck :: "Inverter \<Rightarrow> rat \<Rightarrow> CategorizedMessage list \<Rightarrow> CategorizedMessage list" where
  "maxCheck inver sysV msgs =
     (case getNum (inputVoltageMax (properties inver)) of
        None \<Rightarrow> msgs
      | Some vMax \<Rightarrow>
          if vMax < sysV then
            add Error (name inver @ '' system voltage ('' @ numToString sysV
              @ ''V) exceeds inverter maximum ('' @ numToString vMax @ ''V).'') msgs
          else if vMax * (95 / 100) < sysV then
            add WarnSizing (name inver @ '' system voltage ('' @ numToString sysV
              @ ''V) within 5% of maximum ('' @ numToString vMax @ ''V).'') msgs
          else msgs)"

definition inverterStep :: "rat \<Rightarrow> CategorizedMessage list \<Rightarrow> Inverter \<Rightarrow> CategorizedMessage list" where
  "inverterStep sysV msgs inver = maxCheck inver sysV (minCheck inver sysV msgs)"

text \<open>The production, usage and autonomy notes (lines 461 to 467).\<close>

definition ruleNoPower ::
  "AnyComponent list \<Rightarrow> ComputedStats \<Rightarrow> CategorizedMessage list \<Rightarrow> CategorizedMessage list" where
  "ruleNoPower components st msgs =
     (if totalSolarPower st = 0 \<and> 0 < length (arrays components)
      then add Warn ''Arrays configured but no valid panel pmax values.'' msgs else msgs)"

definition ruleNoUsage ::
  "AnyComponent list \<Rightarrow> SystemInputs \<Rightarrow> CategorizedMessage list \<Rightarrow> CategorizedMessage list" where
  "ruleNoUsage components systemInputs msgs =
     (if estimatedDailyUsageWh systemInputs = 0 \<and> 0 < length components
      then add Warn ''Daily usage is 0; production metrics may be misleading.'' msgs else msgs)"

definition ruleAutonomy :: "ComputedStats \<Rightarrow> CategorizedMessage list \<Rightarrow> CategorizedMessage list" where
  "ruleAutonomy st msgs =
     (if jless (estimatedBatteryAutonomyDays st) (Fin (1 / 2))
         \<and> jgreater (estimatedBatteryAutonomyDays st) (Fin 0)
      then add WarnSizing ''Battery autonomy < 0.5 days; consider more storage or reducing load.'' msgs
      else msgs)"

definition ruleRatio :: "ComputedStats \<Rightarrow> CategorizedMessage list \<Rightarrow> CategorizedMessage list" where
  "ruleRatio st msgs =
     (case productionToConsumptionRatioPercentage st of
        NotApplicable \<Rightarrow> msgs
      | Ratio r \<Rightarrow>
          if jless r (Fin 80) then
            add WarnSizing ''Solar production <80% of adjusted consumption; expect deficit.'' msgs
          else if jgreater r (Fin 150) then
            add Info ''Solar production >150% of adjusted consumption; consider more storage or curtailment strategy.'' msgs
          else msgs)"

definition generalNotes :: "CategorizedMessage list \<Rightarrow> CategorizedMessage list" where
  "generalNotes msgs =
     add InfoSafety ''Always size conductors and protection (fuses/breakers) to NEC/IEC standards and manufacturer specs.''
       (add Info ''Calculations assume ideal wiring; account for voltage drop, temperature, and conversion losses.'' msgs)"

text \<open>The final summary, gated on \<open>components.length > 0\<close>.\<close>

definition finalSummary :: "AnyComponent list \<Rightarrow> CategorizedMessage list \<Rightarrow> CategorizedMessage list" where
  "finalSummary components msgs =
     (let hasErrors = list_ex (\<lambda>m. level m = Error) msgs;
          hasWarnings = list_ex (\<lambda>m. prefix ''warn'' (levelName (level m))) msgs
      in if 0 < length components then
           (if hasErrors then
              add Error ''Critical errors found! Resolve red items first; then address warnings.'' msgs
            else if hasWarnings then
              add Warn ''Warnings present. System may operate but with risk/inefficiency. Review above notes.'' msgs
            else add Info ''System configuration appears compatible based on current checks.'' msgs)
         else msgs)"

text \<open>
  The whole pipeline, in the order of the source. \<open>messagesFrom\<close> takes the statistics
  as the memo takes them from its closure; \<open>messages\<close> is the engine on
  \<open>(components, systemInputs)\<close>.
\<close>

definition messagesFrom ::
  "AnyComponent list \<Rightarrow> ComputedStats \<Rightarrow> SystemInputs \<Rightarrow> CategorizedMessage list" where
  "messagesFrom components st systemInputs =
     (let msgs1 = ruleEmpty components [];
          msgs2 = ruleMixed st msgs1;
          msgs3 = ruleUnassigned components msgs2;
          totalOut = totalMpptOutputCurrent components;
          msgs4 = foldl (mpptStep components) msgs3 (mppts components);
          msgs5 = foldl (batteryStep st totalOut) msgs4 (batteries components);
          msgs6 = foldl (inverterStep (systemWideVoltage systemInputs)) msgs5 (inverters components);
          msgs7 = ruleRatio st (ruleAutonomy st
                    (ruleNoUsage components systemInputs (ruleNoPower components st msgs6)));
          msgs8 = generalNotes msgs7
      in finalSummary components msgs8)"

definition messages :: "AnyComponent list \<Rightarrow> SystemInputs \<Rightarrow> CategorizedMessage list" where
  "messages components systemInputs =
     messagesFrom components (stats components systemInputs) systemInputs"

section \<open>Example systems\<close>

text \<open>Small component sets on which the theorems below are evaluated.\<close>

definition mkPanel :: "rat \<Rightarrow> string \<Rightarrow> string \<Rightarrow> string \<Rightarrow> IndividualSolarPanel" where
  "mkPanel i vc ic pm =
     \<lparr>comp_id = i, name = ''Panel'',
      properties = \<lparr>voc = vc, isc = ic, vmp = [], imp = [], pmax = pm\<rparr>\<rparr>"

definition mkArray :: "rat \<Rightarrow> string \<Rightarrow> string \<Rightarrow> string \<Rightarrow> string \<Rightarrow> SolarArrayConfiguration" where
  "mkArray i sel ser str mp =
     \<lparr>comp_id = i, name = ''Array'',
      properties = \<lparr>selectedPanelId = sel, panelsInSeries = ser, numberOfStrings = str,
                    assignedMpptId = mp\<rparr>\<rparr>"

definition mkMppt :: "rat \<Rightarrow> string \<Rightarrow> string \<Rightarrow> MpptChargeController" where
  "mkMppt i mv mo =
     \<lparr>comp_id = i, name = ''MPPT'',
      properties = \<lparr>maxInputVoltage = mv, maxInputCurrent = [], maxOutputCurrent = mo,
                    nominalBatteryVoltage = []\<rparr>\<rparr>"

definition mkBattery :: "rat \<Rightarrow> string \<Rightarrow> string \<Rightarrow> string \<Rightarrow> Battery" where
  "mkBattery i nv cap mc =
     \<lparr>comp_id = i, name = ''Battery'',
      properties = \<lparr>nominalVoltage = nv, capacityAh = cap, maxChargeCurrent = mc,
                    maxDischargeCurrent = []\<rparr>\<rparr>"





text \<open>An array that names controller 999 while the only controller has id 2.\<close>

definition danglingArray :: SolarArrayConfiguration where
  "danglingArray = mkArray 3 [] ''1'' ''1'' ''999''"

definition danglingSet :: "AnyComponent list" where
  "danglingSet = [Array danglingArray, Mppt (mkMppt 2 [] [])]"




text \<open>A panel whose \<open>pmax\<close> goes from 100 to 200 under an array with \<open>panelsInSeries = -1\<close>.\<close>

definition negSeriesLow :: "AnyComponent list" where
  "negSeriesLow = [Panel (mkPanel 1 ''40'' ''10'' ''100''), Array (mkArray 3 ''1'' ''-1'' ''1'' [])]"

definition negSeriesHigh :: "AnyComponent list" where
  "negSeriesHigh = [Panel (mkPanel 1 ''40'' ''10'' ''200''), Array (mkArray 3 ''1'' ''-1'' ''1'' [])]"

text \<open>The same change of \<open>pmax\<close> under a 2 by 2 array (Scenario A of the specification).\<close>

definition scenarioALow :: "AnyComponent list" where
  "scenarioALow = [Panel (mkPanel 1 ''40'' ''10'' ''100''), Array (mkArray 3 ''1'' ''2'' ''2'' [])]"

definition scenarioAHigh :: "AnyComponent list" where
  "scenarioAHigh = [Panel (mkPanel 1 ''40'' ''10'' ''200''), Array (mkArray 3 ''1'' ''2'' ''2'' [])]"



text \<open>Two batteries of 12 V and 24 V, in that order.\<close>

definition mixedBank :: "AnyComponent list" where
  "mixedBank = [Batt (mkBattery 4 ''12'' ''100'' []), Batt (mkBattery 5 ''24'' ''100'' [])]"

text \<open>An array whose \<open>selectedPanelId\<close> names panel 7 while the only panel has id 1.\<close>

definition orphanArray :: SolarArrayConfiguration where
  "orphanArray = mkArray 3 ''7'' ''2'' ''2'' []"

section \<open>Predicates of the statements\<close>

text \<open>Every message of the list starts with the prefix of its level.\<close>

definition prefixed :: "CategorizedMessage list \<Rightarrow> bool" where
  "prefixed msgs = list_all (\<lambda>m. prefix (levelPrefixMap (level m)) (mtext m)) msgs"

text \<open>
  The layout of an array does not turn a gain of panel power into a loss: the product of
  its parsed \<open>panelsInSeries\<close> and \<open>numberOfStrings\<close> is not negative.
\<close>

definition nonNegativeLayout :: "SolarArrayConfiguration \<Rightarrow> bool" where
  "nonNegativeLayout a =
     (case (getNum (panelsInSeries (properties a)), getNum (numberOfStrings (properties a))) of
        (Some n, Some s) \<Rightarrow> 0 \<le> n * s
      | _ \<Rightarrow> True)"

text \<open>The arrays whose \<open>selectedPanelId\<close> denotes the id of the panel \<open>p\<close>.\<close>

definition arraysOf :: "IndividualSolarPanel \<Rightarrow> AnyComponent list \<Rightarrow> SolarArrayConfiguration list" where
  "arraysOf p components =
     filter (\<lambda>a. toNumber (selectedPanelId (properties a)) = Fin (comp_id p)) (arrays components)"

text \<open>The panel \<open>p\<close> with the text of its \<open>pmax\<close> replaced.\<close>

definition withPmax :: "string \<Rightarrow> IndividualSolarPanel \<Rightarrow> IndividualSolarPanel" where
  "withPmax s p = p\<lparr>properties := (properties p)\<lparr>pmax := s\<rparr>\<rparr>"




text \<open>The one message of the mixed-voltage rule.\<close>

definition mixedVoltagesMessage :: CategorizedMessage where
  "mixedVoltagesMessage = \<lparr>level = Error, mtext = ''Error: '' @ mixedVoltagesText\<rparr>"

section \<open>General lemmas\<close>

lemma foldl_invariant:
  assumes "P s" and "\<And>s x. P s \<Longrightarrow> P (f s x)"
  shows "P (foldl f s xs)"
  using assms(1) by (induction xs arbitrary: s) (simp_all add: assms(2))

subsection \<open>The empty component set\<close>

lemma ratio_zero_production:
  "jgreater y (Fin 0) \<Longrightarrow> jtimes (jdivide (Fin 0) y) (Fin 100) = Fin 0"
  by (cases y) (auto simp: jgreater_def)

lemma stats_nil_ratio: "productionToConsumptionRatioPercentage (stats [] si) = Ratio (Fin 0)"
  by (simp add: stats_def Let_def ratio_zero_production)

lemma stats_nil_autonomy: "estimatedBatteryAutonomyDays (stats [] si) = Fin 0"
  by (simp add: stats_def Let_def)

lemma stats_nil_mixed: "\<not> voltageConsistencyIssue (stats [] si)"
  by (simp add: stats_def Let_def)

lemma messages_nil:
  "messages [] si =
     [\<lparr>level = Info, mtext = ''Info: Add components to start tracking your solar setup!''\<rparr>,
      \<lparr>level = WarnSizing,
       mtext = ''Warning (Sizing): Solar production <80% of adjusted consumption; expect deficit.''\<rparr>,
      \<lparr>level = Info,
       mtext = ''Info: Calculations assume ideal wiring; account for voltage drop, temperature, and conversion losses.''\<rparr>,
      \<lparr>level = InfoSafety,
       mtext = ''Info (Safety Margin): Always size conductors and protection (fuses/breakers) to NEC/IEC standards and manufacturer specs.''\<rparr>]"
  by (simp add: messages_def messagesFrom_def ruleEmpty_def ruleMixed_def ruleUnassigned_def
      unassignedArrays_def ruleNoPower_def ruleNoUsage_def ruleAutonomy_def ruleRatio_def
      generalNotes_def finalSummary_def add_def stats_nil_ratio stats_nil_autonomy stats_nil_mixed
      jgreater_def)

subsection \<open>Every rule keeps the level prefix\<close>

lemma prefixed_add: "prefixed msgs \<Longrightarrow> prefixed (add lv t msgs)"
  by (simp add: prefixed_def add_def)

lemma prefixed_vocCheck: "prefixed msgs \<Longrightarrow> prefixed (vocCheck m mx a v n msgs)"
  by (simp add: vocCheck_def Let_def prefixed_add split: option.splits)

lemma prefixed_assignedStep:
  "prefixed (snd (snd st)) \<Longrightarrow> prefixed (snd (snd (assignedStep ps m mx st a)))"
  by (cases st) (simp add: assignedStep_def Let_def prefixed_vocCheck split: option.splits)

lemma prefixed_iscCheck: "prefixed msgs \<Longrightarrow> prefixed (iscCheck m i msgs)"
  by (simp add: iscCheck_def prefixed_add split: option.splits)

lemma prefixed_powerCheck: "prefixed msgs \<Longrightarrow> prefixed (powerCheck m p msgs)"
  by (simp add: powerCheck_def Let_def prefixed_add split: option.splits)

lemma prefixed_mpptStep:
  assumes "prefixed msgs"
  shows "prefixed (mpptStep cs msgs m)"
proof -
  define msgs1 where "msgs1 = (if length (assigned cs m) = 0
                then add Warn (name m @ '' has no assigned solar arrays.'') msgs else msgs)"
  define st where "st = foldl (assignedStep (panels cs) m (getNum (maxInputVoltage (properties m))))
               (0, 0, msgs1) (assigned cs m)"
  have "prefixed msgs1" using assms by (simp add: msgs1_def prefixed_add)
  then have "prefixed (snd (snd st))"
    unfolding st_def
    by (intro foldl_invariant [where P = "\<lambda>st. prefixed (snd (snd st))"])
       (simp_all add: prefixed_assignedStep)
  moreover have "mpptStep cs msgs m = powerCheck m (fst (snd st)) (iscCheck m (fst st) (snd (snd st)))"
    by (simp add: mpptStep_def Let_def st_def msgs1_def split: prod.splits)
  ultimately show ?thesis
    by (simp add: prefixed_iscCheck prefixed_powerCheck)
qed

lemma prefixed_batteryStep: "prefixed msgs \<Longrightarrow> prefixed (batteryStep st out msgs b)"
  by (simp add: batteryStep_def chargeCheck_def dischargeCheck_def Let_def prefixed_add
      split: option.splits)

lemma prefixed_inverterStep: "prefixed msgs \<Longrightarrow> prefixed (inverterStep v msgs i)"
  by (simp add: inverterStep_def minCheck_def maxCheck_def prefixed_add split: option.splits)

lemma prefixed_Nil: "prefixed []"
  by (simp add: prefixed_def)

lemma prefixed_ruleEmpty: "prefixed msgs \<Longrightarrow> prefixed (ruleEmpty cs msgs)"
  by (simp add: ruleEmpty_def prefixed_add)

lemma prefixed_ruleMixed: "prefixed msgs \<Longrightarrow> prefixed (ruleMixed st msgs)"
  by (simp add: ruleMixed_def prefixed_add)

lemma prefixed_ruleUnassigned: "prefixed msgs \<Longrightarrow> prefixed (ruleUnassigned cs msgs)"
  by (simp add: ruleUnassigned_def Let_def prefixed_add)

lemma prefixed_ruleNoPower: "prefixed msgs \<Longrightarrow> prefixed (ruleNoPower cs st msgs)"
  by (simp add: ruleNoPower_def prefixed_add)

lemma prefixed_ruleNoUsage: "prefixed msgs \<Longrightarrow> prefixed (ruleNoUsage cs si msgs)"
  by (simp add: ruleNoUsage_def prefixed_add)

lemma prefixed_ruleAutonomy: "prefixed msgs \<Longrightarrow> prefixed (ruleAutonomy st msgs)"
  by (simp add: ruleAutonomy_def prefixed_add)

lemma prefixed_ruleRatio: "prefixed msgs \<Longrightarrow> prefixed (ruleRatio st msgs)"
  by (simp add: ruleRatio_def prefixed_add split: ratio.splits)

lemma prefixed_generalNotes: "prefixed msgs \<Longrightarrow> prefixed (generalNotes msgs)"
  by (simp add: generalNotes_def prefixed_add)

lemma prefixed_finalSummary: "prefixed msgs \<Longrightarrow> prefixed (finalSummary cs msgs)"
  by (simp add: finalSummary_def Let_def prefixed_add)

lemma prefixed_messagesFrom: "prefixed (messagesFrom cs st si)"
  unfolding messagesFrom_def Let_def
  by (intro prefixed_finalSummary prefixed_generalNotes prefixed_ruleRatio prefixed_ruleAutonomy
      prefixed_ruleNoUsage prefixed_ruleNoPower foldl_invariant [where P = prefixed]
      prefixed_inverterStep prefixed_batteryStep prefixed_mpptStep
      prefixed_ruleUnassigned prefixed_ruleMixed prefixed_ruleEmpty prefixed_Nil)

section \<open>The claims\<close>

text \<open>
  C6. On the empty component set the diagnostics are, for every setting of the system
  inputs, four messages and not three: between the "add components" note and the two fixed
  notes stands the sizing warning that solar production is below 80% of the adjusted
  consumption. With no production and no load the ratio keeps its initial value 0, a
  number, and the test \<open>ratio < 80\<close> is not gated on \<open>components.length > 0\<close> as the notes
  around it are. No summary is appended.
\<close>

theorem empty_system_emits_deficit_warning:
  "messages [] si =
     [\<lparr>level = Info, mtext = ''Info: Add components to start tracking your solar setup!''\<rparr>,
      \<lparr>level = WarnSizing,
       mtext = ''Warning (Sizing): Solar production <80% of adjusted consumption; expect deficit.''\<rparr>,
      \<lparr>level = Info,
       mtext = ''Info: Calculations assume ideal wiring; account for voltage drop, temperature, and conversion losses.''\<rparr>,
      \<lparr>level = InfoSafety,
       mtext = ''Info (Safety Margin): Always size conductors and protection (fuses/breakers) to NEC/IEC standards and manufacturer specs.''\<rparr>]"
  by (rule messages_nil)



text \<open>
  C9. Every message of the diagnostics output starts with the prefix that
  \<open>levelPrefixMap\<close> gives its level: \<open>Error:\<close>, \<open>Warning (Safety Margin):\<close>,
  \<open>Warning (Sizing):\<close>, \<open>Warning (C-Rate):\<close>, \<open>Warning:\<close>, \<open>Info (Safety Margin):\<close> or
  \<open>Info:\<close>.
\<close>

theorem message_prefix_by_level:
  "m \<in> set (messages cs si) \<Longrightarrow>
     prefix (levelPrefixMap (level m)) (mtext m)
     \<and> prefix (case level m of
                 Error \<Rightarrow> ''Error:''
               | WarnSafety \<Rightarrow> ''Warning (Safety Margin):''
               | WarnSizing \<Rightarrow> ''Warning (Sizing):''
               | WarnCRate \<Rightarrow> ''Warning (C-Rate):''
               | Warn \<Rightarrow> ''Warning:''
               | InfoSafety \<Rightarrow> ''Info (Safety Margin):''
               | Info \<Rightarrow> ''Info:'') (mtext m)"
proof -
  assume "m \<in> set (messages cs si)"
  moreover have "prefixed (messages cs si)"
    by (simp add: messages_def prefixed_messagesFrom)
  ultimately have p: "prefix (levelPrefixMap (level m)) (mtext m)"
    by (simp add: prefixed_def list_all_iff)
  then show ?thesis by (cases "level m") simp_all
qed


theorem message_prefix_by_level_witness:
  "\<lparr>level = WarnSizing,
    mtext = ''Warning (Sizing): Solar production <80% of adjusted consumption; expect deficit.''\<rparr>
     \<in> set (messages [] defaultSystemInputs)
   \<and> prefix ''Warning (Sizing):''
        ''Warning (Sizing): Solar production <80% of adjusted consumption; expect deficit.''"
proof -
  have mem: "\<lparr>level = WarnSizing,
      mtext = ''Warning (Sizing): Solar production <80% of adjusted consumption; expect deficit.''\<rparr>
     \<in> set (messages [] defaultSystemInputs)"
    by (simp add: messages_nil)
  show ?thesis using mem message_prefix_by_level [OF mem] by simp
qed

subsection \<open>Lists of components and the power sum\<close>

lemma panels_append: "panels (xs @ ys) = panels xs @ panels ys"
  by (induction xs rule: panels.induct) simp_all

lemma arrays_append: "arrays (xs @ ys) = arrays xs @ arrays ys"
  by (induction xs rule: arrays.induct) simp_all

lemma mppts_append: "mppts (xs @ ys) = mppts xs @ mppts ys"
  by (induction xs rule: mppts.induct) simp_all

lemma batteries_append: "batteries (xs @ ys) = batteries xs @ batteries ys"
  by (induction xs rule: batteries.induct) simp_all

lemma totalSolarPower_stats:
  "totalSolarPower (stats cs si) = foldl (addArrayPower (panels cs)) 0 (arrays cs)"
  by (simp add: stats_def Let_def)

lemma production_stats:
  "estimatedDailySolarProductionWh (stats cs si) =
     totalSolarPower (stats cs si) * peakSunHours si * (solarPanelEfficiency si / 100)"
  by (simp add: stats_def Let_def)

lemma getNum_examples:
  "getNum ''100'' = Some 100" "getNum ''101'' = Some 101" "getNum ''200'' = Some 200"
  "getNum ''2.5'' = Some (5 / 2)" "getNum ''1.25'' = Some (5 / 4)" "getNum ''-1'' = Some (- 1)"
  "getNum ''1'' = Some 1" "getNum ''2'' = Some 2" "getNum ''12'' = Some 12" "getNum ''24'' = Some 24"
  "getNum ''10'' = Some 10" "getNum ''20'' = Some 20" "getNum ''111'' = Some 111"
  "getNum ''95'' = Some 95" "getNum [] = None" "getNum ''40'' = Some 40"
  by code_simp+

lemma toNumber_examples:
  "toNumber ''1'' = Fin 1" "toNumber ''7'' = Fin 7" "toNumber [] = Fin 0"
  by code_simp+

lemma numToString_examples:
  "numToString 1 = ''1''" "numToString 2 = ''2''" "numToString 12 = ''12''"
  "numToString 10 = ''10''" "numToString 100 = ''100''"
  by code_simp+

lemma findPanel_None:
  "toNumber sel \<notin> set (map (Fin \<circ> comp_id) ps) \<Longrightarrow> findPanel ps sel = None"
  by (force simp: findPanel_def find_None_iff image_iff)

lemma addArrayPower_unresolved:
  "findPanel ps (selectedPanelId (properties a)) = None \<Longrightarrow> addArrayPower ps tot a = tot"
  by (simp add: addArrayPower_def)

text \<open>
  C7. An array whose \<open>selectedPanelId\<close> denotes a number that is the id of no panel adds
  nothing to \<open>totalSolarPower\<close>: its step returns the running total unchanged, and the
  aggregate is the one of the component set without that array. The lookup yields
  \<open>undefined\<close> (\<open>None\<close>) and the step returns before any property of a panel is read;
  \<open>stats\<close> is a total function with no error result.
\<close>

theorem unresolved_panel_contributes_zero:
  assumes "toNumber (selectedPanelId (properties a)) \<notin> set (map (Fin \<circ> comp_id) (panels (cs1 @ cs2)))"
  shows "addArrayPower (panels (cs1 @ Array a # cs2)) tot a = tot
         \<and> totalSolarPower (stats (cs1 @ Array a # cs2) si) = totalSolarPower (stats (cs1 @ cs2) si)"
proof -
  have ps: "panels (cs1 @ Array a # cs2) = panels (cs1 @ cs2)"
    by (simp add: panels_append)
  have none: "findPanel (panels (cs1 @ cs2)) (selectedPanelId (properties a)) = None"
    using assms by (rule findPanel_None)
  have step: "addArrayPower (panels (cs1 @ cs2)) t a = t" for t
    using none by (rule addArrayPower_unresolved)
  show ?thesis
    by (simp add: totalSolarPower_stats ps arrays_append step)
qed

theorem unresolved_panel_contributes_zero_witness:
  "toNumber (selectedPanelId (properties orphanArray)) = Fin 7
   \<and> map comp_id (panels [Panel (mkPanel 1 ''40'' ''10'' ''100'')]) = [1]
   \<and> totalSolarPower (stats [Panel (mkPanel 1 ''40'' ''10'' ''100''), Array orphanArray] defaultSystemInputs) = 0
   \<and> totalSolarPower (stats [Panel (mkPanel 1 ''40'' ''10'' ''100'')] defaultSystemInputs) = 0"
proof -
  have n: "toNumber (selectedPanelId (properties orphanArray)) = Fin 7"
    by (simp add: orphanArray_def mkArray_def toNumber_examples)
  have i: "map comp_id (panels [Panel (mkPanel 1 ''40'' ''10'' ''100'')]) = [1]"
    by (simp add: mkPanel_def)
  have h: "toNumber (selectedPanelId (properties orphanArray))
             \<notin> set (map (Fin \<circ> comp_id) (panels ([Panel (mkPanel 1 ''40'' ''10'' ''100'')] @ [])))"
    by (simp add: n mkPanel_def)
  have z: "totalSolarPower (stats [Panel (mkPanel 1 ''40'' ''10'' ''100'')] defaultSystemInputs) = 0"
    by (simp add: totalSolarPower_stats)
  show ?thesis
    using unresolved_panel_contributes_zero [OF h, of 0 defaultSystemInputs] n i z by simp
qed




lemma negSeries_stats:
  "totalSolarPower (stats negSeriesLow si) = - 100"
  "totalSolarPower (stats negSeriesHigh si) = - 200"
  by (simp_all add: stats_def Let_def negSeriesLow_def negSeriesHigh_def mkArray_def mkPanel_def
      addArrayPower_def findPanel_def getNum_examples toNumber_examples)




subsection \<open>Raising the power of one panel\<close>

lemma find_append_cases:
  "List.find P (xs @ ys) = (case List.find P xs of None \<Rightarrow> List.find P ys | Some x \<Rightarrow> Some x)"
  by (induction xs) simp_all

lemma foldl_mono:
  fixes f g :: "rat \<Rightarrow> 'a \<Rightarrow> rat"
  assumes "\<And>a t t'. a \<in> set as \<Longrightarrow> t \<le> t' \<Longrightarrow> f t a \<le> g t' a" and "t \<le> t'"
  shows "foldl f t as \<le> foldl g t' as"
  using assms by (induction as arbitrary: t t') simp_all

lemma addArrayPower_withPmax:
  assumes x: "getNum (pmax (properties p)) = Some x" and x': "getNum s' = Some x'" and le: "x \<le> x'"
    and t: "t \<le> t'"
    and lay: "toNumber (selectedPanelId (properties a)) = Fin (comp_id p) \<Longrightarrow> nonNegativeLayout a"
  shows "addArrayPower (xs @ p # ys) t a \<le> addArrayPower (xs @ withPmax s' p # ys) t' a"
proof (cases "findPanel xs (selectedPanelId (properties a))")
  case (Some q)
  then have "findPanel (xs @ p # ys) (selectedPanelId (properties a)) = Some q"
    "findPanel (xs @ withPmax s' p # ys) (selectedPanelId (properties a)) = Some q"
    by (simp_all add: findPanel_def find_append_cases)
  then show ?thesis using t
    by (simp add: addArrayPower_def split: option.splits)
next
  case None
  show ?thesis
  proof (cases "Fin (comp_id p) = toNumber (selectedPanelId (properties a))")
    case False
    then have "findPanel (xs @ p # ys) (selectedPanelId (properties a))
                 = findPanel ys (selectedPanelId (properties a))"
      "findPanel (xs @ withPmax s' p # ys) (selectedPanelId (properties a))
                 = findPanel ys (selectedPanelId (properties a))"
      using None by (simp_all add: findPanel_def find_append_cases withPmax_def)
    then show ?thesis using t
      by (simp add: addArrayPower_def split: option.splits)
  next
    case True
    then have f: "findPanel (xs @ p # ys) (selectedPanelId (properties a)) = Some p"
      "findPanel (xs @ withPmax s' p # ys) (selectedPanelId (properties a)) = Some (withPmax s' p)"
      using None by (simp_all add: findPanel_def find_append_cases withPmax_def)
    have l: "nonNegativeLayout a" using lay True by simp
    have px': "getNum (pmax (properties (withPmax s' p))) = Some x'"
      using x' by (simp add: withPmax_def)
    show ?thesis
    proof (cases "getNum (panelsInSeries (properties a))")
      case None
      then show ?thesis using f t x px' by (simp add: addArrayPower_def)
    next
      case (Some n)
      note n = this
      show ?thesis
      proof (cases "getNum (numberOfStrings (properties a))")
        case None
        then show ?thesis using f t x px' n by (simp add: addArrayPower_def)
      next
        case (Some s)
        have "0 \<le> n * s" using l n Some by (simp add: nonNegativeLayout_def)
        then have "x * (n * s) \<le> x' * (n * s)" using le by (rule mult_right_mono [rotated])
        then show ?thesis using f t x px' n Some
          by (simp add: addArrayPower_def mult.assoc)
      qed
    qed
  qed
qed

text \<open>
  C4, as amended. Let the text of one panel's \<open>pmax\<close> change from one that parses to \<open>x\<close> to
  one that parses to \<open>x' \<ge> x\<close>, everything else fixed. If every array whose
  \<open>selectedPanelId\<close> denotes that panel's id has a product of parsed \<open>panelsInSeries\<close> and
  \<open>numberOfStrings\<close> that is not negative, \<open>totalSolarPower\<close> does not decrease; if moreover
  \<open>peakSunHours \<times> solarPanelEfficiency\<close> is not negative, \<open>estimatedDailySolarProductionWh\<close>
  does not decrease.
\<close>

theorem pmax_monotone_for_nonnegative_layouts:
  assumes "getNum (pmax (properties p)) = Some x" and "getNum s' = Some x'" and "x \<le> x'"
    and "list_all nonNegativeLayout (arraysOf p (cs1 @ cs2))"
  shows "totalSolarPower (stats (cs1 @ Panel p # cs2) si)
           \<le> totalSolarPower (stats (cs1 @ Panel (withPmax s' p) # cs2) si)
         \<and> (0 \<le> peakSunHours si * solarPanelEfficiency si \<longrightarrow>
              estimatedDailySolarProductionWh (stats (cs1 @ Panel p # cs2) si)
                \<le> estimatedDailySolarProductionWh (stats (cs1 @ Panel (withPmax s' p) # cs2) si))"
proof -
  have lay: "nonNegativeLayout a"
    if "a \<in> set (arrays (cs1 @ cs2))" "toNumber (selectedPanelId (properties a)) = Fin (comp_id p)" for a
    using assms(4) that by (simp add: arraysOf_def list_all_iff)
  have ar: "arrays (cs1 @ Panel q # cs2) = arrays (cs1 @ cs2)" for q
    by (simp add: arrays_append)
  have pa: "panels (cs1 @ Panel q # cs2) = panels cs1 @ q # panels cs2" for q
    by (simp add: panels_append)
  have tsp: "totalSolarPower (stats (cs1 @ Panel p # cs2) si)
           \<le> totalSolarPower (stats (cs1 @ Panel (withPmax s' p) # cs2) si)"
    unfolding totalSolarPower_stats ar pa
    by (rule foldl_mono) (simp_all add: addArrayPower_withPmax [OF assms(1-3)] lay)
  have "totalSolarPower (stats (cs1 @ Panel p # cs2) si) * (peakSunHours si * solarPanelEfficiency si)
          \<le> totalSolarPower (stats (cs1 @ Panel (withPmax s' p) # cs2) si)
              * (peakSunHours si * solarPanelEfficiency si)"
    if "0 \<le> peakSunHours si * solarPanelEfficiency si"
    using tsp that by (rule mult_right_mono)
  then show ?thesis using tsp
    by (simp add: production_stats mult.assoc divide_right_mono)
qed

lemma scenarioA_stats:
  "totalSolarPower (stats scenarioALow si) = 400"
  "totalSolarPower (stats scenarioAHigh si) = 800"
  by (simp_all add: stats_def Let_def scenarioALow_def scenarioAHigh_def mkArray_def mkPanel_def
      addArrayPower_def findPanel_def getNum_examples toNumber_examples)

theorem pmax_monotone_for_nonnegative_layouts_witness:
  "getNum ''100'' = Some 100 \<and> getNum ''200'' = Some 200
   \<and> totalSolarPower (stats scenarioALow defaultSystemInputs) = 400
   \<and> totalSolarPower (stats scenarioAHigh defaultSystemInputs) = 800
   \<and> estimatedDailySolarProductionWh (stats scenarioALow defaultSystemInputs)
        \<le> estimatedDailySolarProductionWh (stats scenarioAHigh defaultSystemInputs)"
proof -
  let ?p = "mkPanel 1 ''40'' ''10'' ''100''"
  let ?cs2 = "[Array (mkArray 3 ''1'' ''2'' ''2'' [])]"
  have h1: "getNum (pmax (properties ?p)) = Some 100"
    by (simp add: mkPanel_def getNum_examples)
  have h2: "getNum ''200'' = Some 200" by (simp add: getNum_examples)
  have h3: "(100::rat) \<le> 200" by simp
  have h4: "list_all nonNegativeLayout (arraysOf ?p ([] @ ?cs2))"
    by (simp add: arraysOf_def nonNegativeLayout_def mkArray_def mkPanel_def getNum_examples
        toNumber_examples)
  have w: "withPmax ''200'' ?p = mkPanel 1 ''40'' ''10'' ''200''"
    by (simp add: withPmax_def mkPanel_def)
  have psh: "0 \<le> peakSunHours defaultSystemInputs * solarPanelEfficiency defaultSystemInputs"
    by (simp add: defaultSystemInputs_def)
  show ?thesis
    using pmax_monotone_for_nonnegative_layouts [OF h1 h2 h3 h4, of defaultSystemInputs] psh
    by (simp add: w scenarioALow_def [symmetric] scenarioAHigh_def [symmetric] scenarioA_stats
        getNum_examples)
qed

text \<open>
  The claim as stated fails: under an array with \<open>panelsInSeries = -1\<close>, raising \<open>pmax\<close>
  from 100 to 200 lowers the power from -100 to -200 and the daily production from -340
  to -680.
\<close>

theorem pmax_increase_lowers_power_counterexample:
  "getNum ''100'' = Some 100 \<and> getNum ''200'' = Some 200
   \<and> negSeriesLow = [Panel (mkPanel 1 ''40'' ''10'' ''100''), Array (mkArray 3 ''1'' ''-1'' ''1'' [])]
   \<and> negSeriesHigh = [Panel (withPmax ''200'' (mkPanel 1 ''40'' ''10'' ''100'')),
                       Array (mkArray 3 ''1'' ''-1'' ''1'' [])]
   \<and> totalSolarPower (stats negSeriesHigh defaultSystemInputs)
        < totalSolarPower (stats negSeriesLow defaultSystemInputs)
   \<and> estimatedDailySolarProductionWh (stats negSeriesHigh defaultSystemInputs)
        < estimatedDailySolarProductionWh (stats negSeriesLow defaultSystemInputs)"
proof -
  have lo: "negSeriesLow = [Panel (mkPanel 1 ''40'' ''10'' ''100''), Array (mkArray 3 ''1'' ''-1'' ''1'' [])]"
    by (simp add: negSeriesLow_def)
  have hi: "negSeriesHigh = [Panel (withPmax ''200'' (mkPanel 1 ''40'' ''10'' ''100'')),
                       Array (mkArray 3 ''1'' ''-1'' ''1'' [])]"
    by (simp add: negSeriesHigh_def withPmax_def mkPanel_def)
  have t: "totalSolarPower (stats negSeriesHigh defaultSystemInputs)
        < totalSolarPower (stats negSeriesLow defaultSystemInputs)"
    by (simp add: negSeries_stats)
  have pr: "estimatedDailySolarProductionWh (stats negSeriesHigh defaultSystemInputs)
        < estimatedDailySolarProductionWh (stats negSeriesLow defaultSystemInputs)"
    by (simp add: production_stats negSeries_stats defaultSystemInputs_def)
  show ?thesis
    by (intro conjI lo hi t pr getNum_examples)
qed

subsection \<open>Counting the mixed-voltage error\<close>

lemma suffix2_append:
  "suffix [a, b] (u @ c # d # t) = suffix [a, b] (c # d # t)"
proof
  assume "suffix [a, b] (u @ c # d # t)"
  then have "suffix [a, b] (c # d # t) \<or> (\<exists>xs'. [a, b] = xs' @ c # d # t \<and> suffix xs' u)"
    by (simp only: suffix_append)
  then show "suffix [a, b] (c # d # t)"
  proof
    assume "\<exists>xs'. [a, b] = xs' @ c # d # t \<and> suffix xs' u"
    then obtain xs' where e: "[a, b] = xs' @ c # d # t" by blast
    then have "length [a, b] = length (xs' @ c # d # t)" by simp
    then have "xs' = []" by simp
    with e show ?thesis by simp
  qed
next
  assume "suffix [a, b] (c # d # t)"
  then show "suffix [a, b] (u @ c # d # t)" by (rule suffix_appendI)
qed

lemma closing_paren_not_mixed: "suffix '').'' t \<Longrightarrow> t \<noteq> mixedVoltagesText"
proof
  assume s: "suffix '').'' t" and e: "t = mixedVoltagesText"
  from s obtain u where "t = u @ '').''" by (auto simp: suffix_def)
  with e have "rev (u @ '').'') = rev mixedVoltagesText" by simp
  then show False by (simp add: mixedVoltagesText_def)
qed

lemma count_add:
  "count_list (add lv t msgs) m
     = count_list msgs m + (if m = \<lparr>level = lv, mtext = levelPrefixMap lv @ '' '' @ t\<rparr> then 1 else 0)"
  by (simp add: add_def)

lemma count_add_other:
  "lv \<noteq> Error \<or> t \<noteq> mixedVoltagesText \<Longrightarrow>
   count_list (add lv t msgs) mixedVoltagesMessage = count_list msgs mixedVoltagesMessage"
  by (auto simp: count_add mixedVoltagesMessage_def)

lemma count_add_paren:
  "suffix '').'' t \<Longrightarrow>
   count_list (add lv t msgs) mixedVoltagesMessage = count_list msgs mixedVoltagesMessage"
  by (simp add: count_add_other closing_paren_not_mixed)

lemmas suffix_paren = suffix2_append suffix_Cons

lemma count_vocCheck:
  "count_list (vocCheck m mx a v n msgs) mixedVoltagesMessage = count_list msgs mixedVoltagesMessage"
  by (simp add: vocCheck_def Let_def count_add_paren count_add_other suffix_paren split: option.splits)


lemma count_assignedStep:
  "count_list (snd (snd (assignedStep ps m mx st a))) mixedVoltagesMessage
     = count_list (snd (snd st)) mixedVoltagesMessage"
  by (cases st) (simp add: assignedStep_def Let_def count_vocCheck split: option.splits)

lemma count_iscCheck:
  "count_list (iscCheck m i msgs) mixedVoltagesMessage = count_list msgs mixedVoltagesMessage"
  by (simp add: iscCheck_def count_add_paren count_add_other suffix_paren split: option.splits)

lemma count_powerCheck:
  "count_list (powerCheck m p msgs) mixedVoltagesMessage = count_list msgs mixedVoltagesMessage"
  by (simp add: powerCheck_def Let_def count_add_other split: option.splits)

lemma mpptStep_unfold:
  "mpptStep cs msgs m =
     (let st = foldl (assignedStep (panels cs) m (getNum (maxInputVoltage (properties m))))
                 (0, 0, if length (assigned cs m) = 0
                        then add Warn (name m @ '' has no assigned solar arrays.'') msgs else msgs)
                 (assigned cs m)
      in powerCheck m (fst (snd st)) (iscCheck m (fst st) (snd (snd st))))"
  by (simp add: mpptStep_def Let_def split: prod.splits)

lemma count_mpptStep:
  "count_list (mpptStep cs msgs m) mixedVoltagesMessage = count_list msgs mixedVoltagesMessage"
proof -
  define msgs1 where "msgs1 = (if length (assigned cs m) = 0
                then add Warn (name m @ '' has no assigned solar arrays.'') msgs else msgs)"
  have "count_list msgs1 mixedVoltagesMessage = count_list msgs mixedVoltagesMessage"
    by (simp add: msgs1_def count_add_other)
  then have "count_list (snd (snd (foldl (assignedStep (panels cs) m
                 (getNum (maxInputVoltage (properties m)))) (0, 0, msgs1) (assigned cs m))))
               mixedVoltagesMessage = count_list msgs mixedVoltagesMessage"
    by (intro foldl_invariant
          [where P = "\<lambda>st. count_list (snd (snd st)) mixedVoltagesMessage
                          = count_list msgs mixedVoltagesMessage"])
       (simp_all add: count_assignedStep)
  then show ?thesis
    by (simp add: mpptStep_unfold Let_def msgs1_def count_powerCheck count_iscCheck)
qed

lemma count_chargeCheck:
  "count_list (chargeCheck b out msgs) mixedVoltagesMessage = count_list msgs mixedVoltagesMessage"
  by (simp add: chargeCheck_def count_add_paren count_add_other suffix_paren split: option.splits)

lemma count_dischargeCheck:
  "count_list (dischargeCheck b st msgs) mixedVoltagesMessage = count_list msgs mixedVoltagesMessage"
  by (simp add: dischargeCheck_def Let_def count_add_paren count_add_other suffix_paren
      split: option.splits)

lemma count_batteryStep:
  "count_list (batteryStep st out msgs b) mixedVoltagesMessage = count_list msgs mixedVoltagesMessage"
  by (simp add: batteryStep_def count_chargeCheck count_dischargeCheck split: option.splits)

lemma count_minCheck:
  "count_list (minCheck i v msgs) mixedVoltagesMessage = count_list msgs mixedVoltagesMessage"
  by (simp add: minCheck_def count_add_paren count_add_other suffix_paren split: option.splits)

lemma count_maxCheck:
  "count_list (maxCheck i v msgs) mixedVoltagesMessage = count_list msgs mixedVoltagesMessage"
  by (simp add: maxCheck_def count_add_paren count_add_other suffix_paren split: option.splits)

lemma count_inverterStep:
  "count_list (inverterStep v msgs i) mixedVoltagesMessage = count_list msgs mixedVoltagesMessage"
  by (simp add: inverterStep_def count_minCheck count_maxCheck)

lemma count_foldl:
  assumes "\<And>s x. count_list (f s x) mixedVoltagesMessage = count_list s mixedVoltagesMessage"
  shows "count_list (foldl f s xs) mixedVoltagesMessage = count_list s mixedVoltagesMessage"
  by (induction xs arbitrary: s) (simp_all add: assms)

lemma count_ruleEmpty:
  "count_list (ruleEmpty cs msgs) mixedVoltagesMessage = count_list msgs mixedVoltagesMessage"
  by (simp add: ruleEmpty_def count_add_other)

lemma count_ruleMixed:
  "count_list (ruleMixed st msgs) mixedVoltagesMessage
     = count_list msgs mixedVoltagesMessage + (if voltageConsistencyIssue st then 1 else 0)"
  by (simp add: ruleMixed_def count_add mixedVoltagesMessage_def)

lemma count_ruleUnassigned:
  "count_list (ruleUnassigned cs msgs) mixedVoltagesMessage = count_list msgs mixedVoltagesMessage"
  by (simp add: ruleUnassigned_def Let_def count_add_other)

lemma count_ruleNoPower:
  "count_list (ruleNoPower cs st msgs) mixedVoltagesMessage = count_list msgs mixedVoltagesMessage"
  by (simp add: ruleNoPower_def count_add_other)

lemma count_ruleNoUsage:
  "count_list (ruleNoUsage cs si msgs) mixedVoltagesMessage = count_list msgs mixedVoltagesMessage"
  by (simp add: ruleNoUsage_def count_add_other)

lemma count_ruleAutonomy:
  "count_list (ruleAutonomy st msgs) mixedVoltagesMessage = count_list msgs mixedVoltagesMessage"
  by (simp add: ruleAutonomy_def count_add_other)

lemma count_ruleRatio:
  "count_list (ruleRatio st msgs) mixedVoltagesMessage = count_list msgs mixedVoltagesMessage"
  by (simp add: ruleRatio_def count_add_other split: ratio.splits)

lemma count_generalNotes:
  "count_list (generalNotes msgs) mixedVoltagesMessage = count_list msgs mixedVoltagesMessage"
  by (simp add: generalNotes_def count_add_other)

lemma summary_not_mixed:
  "''Critical errors found! Resolve red items first; then address warnings.'' \<noteq> mixedVoltagesText"
  by (simp add: mixedVoltagesText_def)

lemma count_finalSummary:
  "count_list (finalSummary cs msgs) mixedVoltagesMessage = count_list msgs mixedVoltagesMessage"
  unfolding finalSummary_def Let_def
  by (simp only: count_add_other summary_not_mixed MessageLevel.distinct simp_thms if_cancel
      split: if_splits)

lemma count_messagesFrom:
  "count_list (messagesFrom cs st si) mixedVoltagesMessage
     = (if voltageConsistencyIssue st then 1 else 0)"
  by (simp only: messagesFrom_def Let_def count_finalSummary count_generalNotes count_ruleRatio
      count_ruleAutonomy count_ruleNoUsage count_ruleNoPower count_foldl count_inverterStep
      count_batteryStep count_mpptStep count_ruleUnassigned count_ruleMixed count_ruleEmpty
      count_list.simps add_0)

lemma voltageConsistencyIssue_stats:
  "voltageConsistencyIssue (stats cs si) = (1 < length (foldl addVoltage [] (batteries cs)))"
  by (simp add: stats_def Let_def)

lemma systemNominalVoltage_stats:
  "systemNominalVoltage (stats cs si)
     = (case foldl addVoltage [] (batteries cs) of [] \<Rightarrow> ''N/A'' | v # vs \<Rightarrow> numToString v)"
  by (simp add: stats_def Let_def)

lemma two_voltages:
  assumes "getNum (nominalVoltage (properties b1)) = Some 12"
    and "getNum (nominalVoltage (properties b2)) = Some 24"
  shows "foldl addVoltage [] [b1, b2] = [12, 24]"
  using assms by (simp add: addVoltage_def)

text \<open>
  C5. With exactly two batteries whose nominal voltages parse to 12 and 24, in that
  stored order, the aggregator sets \<open>voltageConsistencyIssue\<close>, reports the first-seen
  voltage as the text \<open>12\<close>, and the diagnostics contain the error about mixed battery
  voltages exactly once.
\<close>

theorem mixed_bank_reports_first_voltage:
  assumes "batteries cs = [b1, b2]"
    and "getNum (nominalVoltage (properties b1)) = Some 12"
    and "getNum (nominalVoltage (properties b2)) = Some 24"
  shows "voltageConsistencyIssue (stats cs si)
         \<and> systemNominalVoltage (stats cs si) = ''12''
         \<and> count_list (messages cs si) mixedVoltagesMessage = 1"
  using two_voltages [OF assms(2,3)] assms(1)
  by (simp add: messages_def count_messagesFrom voltageConsistencyIssue_stats
      systemNominalVoltage_stats numToString_examples)

theorem mixed_bank_reports_first_voltage_witness:
  "batteries mixedBank = [mkBattery 4 ''12'' ''100'' [], mkBattery 5 ''24'' ''100'' []]
   \<and> voltageConsistencyIssue (stats mixedBank defaultSystemInputs)
   \<and> systemNominalVoltage (stats mixedBank defaultSystemInputs) = ''12''
   \<and> count_list (messages mixedBank defaultSystemInputs) mixedVoltagesMessage = 1"
proof -
  have b: "batteries mixedBank = [mkBattery 4 ''12'' ''100'' [], mkBattery 5 ''24'' ''100'' []]"
    by (simp add: mixedBank_def)
  have v1: "getNum (nominalVoltage (properties (mkBattery 4 ''12'' ''100'' []))) = Some 12"
    by (simp add: mkBattery_def getNum_examples)
  have v2: "getNum (nominalVoltage (properties (mkBattery 5 ''24'' ''100'' []))) = Some 24"
    by (simp add: mkBattery_def getNum_examples)
  show ?thesis
    using mixed_bank_reports_first_voltage [OF b v1 v2, of defaultSystemInputs] b by simp
qed

subsection \<open>Rules only append\<close>


lemma in_add_new: "\<lparr>level = lv, mtext = levelPrefixMap lv @ '' '' @ t\<rparr> \<in> set (add lv t msgs)"
  by (simp add: add_def)






















subsection \<open>The charge check of a battery\<close>












subsection \<open>The string-voltage check\<close>


















subsection \<open>Arrays that name a controller\<close>

lemma unassignedArrays_insert:
  "assignedMpptId (properties a) \<noteq> [] \<Longrightarrow>
   unassignedArrays (cs1 @ Array a # cs2) = unassignedArrays (cs1 @ cs2)"
  by (simp add: unassignedArrays_def arrays_append)

lemma mppts_insert_array: "mppts (cs1 @ Array a # cs2) = mppts (cs1 @ cs2)"
  by (simp add: mppts_append)

lemma assigned_insert:
  "assignedMpptId (properties a) \<noteq> numToString (comp_id m) \<Longrightarrow>
   assigned (cs1 @ Array a # cs2) m = assigned (cs1 @ cs2) m"
  by (simp add: assigned_def arrays_append)

text \<open>
  C2, as amended. An array whose \<open>assignedMpptId\<close> is not empty and is the printed id of
  no controller is not counted by rule 3, which counts the arrays with an empty
  \<open>assignedMpptId\<close> only: the list of unassigned arrays and the message of the rule are
  those of the component set without that array. It is in no controller's list of assigned
  arrays either, so rule 4 never looks at it. Both engine functions are total.
\<close>

theorem dangling_controller_reference_is_ignored:
  assumes "assignedMpptId (properties a) \<noteq> []"
    and "assignedMpptId (properties a) \<notin> set (map (numToString \<circ> comp_id) (mppts (cs1 @ cs2)))"
  shows "unassignedArrays (cs1 @ Array a # cs2) = unassignedArrays (cs1 @ cs2)
         \<and> ruleUnassigned (cs1 @ Array a # cs2) msgs = ruleUnassigned (cs1 @ cs2) msgs
         \<and> list_all (\<lambda>m. assigned (cs1 @ Array a # cs2) m = assigned (cs1 @ cs2) m)
              (mppts (cs1 @ Array a # cs2))"
proof (intro conjI)
  show u: "unassignedArrays (cs1 @ Array a # cs2) = unassignedArrays (cs1 @ cs2)"
    using assms(1) by (rule unassignedArrays_insert)
  show "ruleUnassigned (cs1 @ Array a # cs2) msgs = ruleUnassigned (cs1 @ cs2) msgs"
    by (simp only: ruleUnassigned_def u mppts_insert_array)
  have "assignedMpptId (properties a) \<noteq> numToString (comp_id m)" if "m \<in> set (mppts (cs1 @ cs2))" for m
    using assms(2) that by force
  then show "list_all (\<lambda>m. assigned (cs1 @ Array a # cs2) m = assigned (cs1 @ cs2) m)
              (mppts (cs1 @ Array a # cs2))"
    by (simp add: list_all_iff mppts_insert_array assigned_insert)
qed

theorem dangling_controller_reference_is_ignored_witness:
  "assignedMpptId (properties danglingArray) = ''999''
   \<and> map (numToString \<circ> comp_id) (mppts [Mppt (mkMppt 2 [] [])]) = [''2'']
   \<and> unassignedArrays danglingSet = []
   \<and> ruleUnassigned danglingSet [] = []
   \<and> assigned danglingSet (mkMppt 2 [] []) = []"
proof -
  have a: "assignedMpptId (properties danglingArray) = ''999''"
    by (simp add: danglingArray_def mkArray_def)
  have i: "map (numToString \<circ> comp_id) (mppts [Mppt (mkMppt 2 [] [])]) = [''2'']"
    by (simp add: mkMppt_def numToString_examples)
  have h1: "assignedMpptId (properties danglingArray) \<noteq> []" by (simp add: a)
  have h2: "assignedMpptId (properties danglingArray)
              \<notin> set (map (numToString \<circ> comp_id) (mppts ([] @ [Mppt (mkMppt 2 [] [])])))"
    using i by (simp add: a)
  have d: "danglingSet = [] @ Array danglingArray # [Mppt (mkMppt 2 [] [])]"
    by (simp add: danglingSet_def)
  have e: "unassignedArrays ([] @ [Mppt (mkMppt 2 [] [])]) = []"
    "ruleUnassigned ([] @ [Mppt (mkMppt 2 [] [])]) [] = []"
    "assigned ([] @ [Mppt (mkMppt 2 [] [])]) (mkMppt 2 [] []) = []"
    by (simp_all add: unassignedArrays_def ruleUnassigned_def assigned_def)
  have ms: "mppts danglingSet = [mkMppt 2 [] []]"
    by (simp add: danglingSet_def)
  show ?thesis
    using dangling_controller_reference_is_ignored [OF h1 h2, of "[]", folded d] a i e
    by (simp add: ms)
qed

text \<open>
  The claim as stated fails: with one controller of id 2 and one array that names
  controller 999, no message says that an array is not assigned.
\<close>

theorem dangling_array_not_counted_unassigned_counterexample:
  "assignedMpptId (properties danglingArray) = ''999''
   \<and> map (numToString \<circ> comp_id) (mppts danglingSet) = [''2'']
   \<and> unassignedArrays danglingSet = []
   \<and> messages danglingSet defaultSystemInputs =
       [\<lparr>level = Warn, mtext = ''Warning: MPPT has no assigned solar arrays.''\<rparr>,
        \<lparr>level = Warn, mtext = ''Warning: Arrays configured but no valid panel pmax values.''\<rparr>,
        \<lparr>level = Warn, mtext = ''Warning: Daily usage is 0; production metrics may be misleading.''\<rparr>,
        \<lparr>level = WarnSizing,
         mtext = ''Warning (Sizing): Solar production <80% of adjusted consumption; expect deficit.''\<rparr>,
        \<lparr>level = Info,
         mtext = ''Info: Calculations assume ideal wiring; account for voltage drop, temperature, and conversion losses.''\<rparr>,
        \<lparr>level = InfoSafety,
         mtext = ''Info (Safety Margin): Always size conductors and protection (fuses/breakers) to NEC/IEC standards and manufacturer specs.''\<rparr>,
        \<lparr>level = Warn,
         mtext = ''Warning: Warnings present. System may operate but with risk/inefficiency. Review above notes.''\<rparr>]"
  by code_simp

end
